theory Spec2Isabelle
  imports Main
begin

section \<open>The dependency report pipeline of scripts/dependencies/dependencies.go\<close>

text \<open>
  The program is one Go function, \<open>run\<close>, called by \<open>main\<close>. It is a straight
  line of calls to the operating system, to external commands and to a git library, each of
  which either succeeds or makes \<open>run\<close> return a wrapped error.

  The embedding passes an explicit world (files, process environment, repository state and
  the log of the calls made so far) through the steps of \<open>run\<close>. What the outside
  answers to each call is read from a record of answers, so that a theorem quantified over
  that record speaks about every behaviour of the collaborators.

  Conventions for the calls whose code is outside this repository:
  \<^item> a file is named by its path string; directories are not represented, so
    \<open>os.MkdirAll\<close> only succeeds or fails;
  \<^item> \<open>os.WriteFile\<close> that fails leaves the files as they were;
  \<^item> the git calls act on the repository state only (current branch, index, commits,
    pushed branches), not on the file map;
  \<^item> \<open>filepath.Join\<close> is modelled without path cleaning;
  \<^item> the strings returned by \<open>OutputTrimNL\<close> are taken as given, already trimmed;
  \<^item> calls to the logger that only print are left out; \<open>logrus.Fatalf\<close> ends the
    process with status 1.
\<close>

subsection \<open>Constants (lines 16--20)\<close>

definition branch :: string where
  "branch = ''gh-pages''"

text \<open>The constant \<open>file\<close> of line 18; the name is reserved in Isabelle.\<close>

definition file_name :: string where
  "file_name = ''dependencies.md''"

definition tokenKey :: string where
  "tokenKey = ''GITHUB_TOKEN''"

subsection \<open>Formatting the report (lines 93--111)\<close>

definition nl :: string where
  "nl = [CHR 0x0A]"

text \<open>
  \<open>fmt.Sprintf\<close> restricted to the verb \<open>%s\<close> with string operands, the only verb
  of the template. A \<open>%s\<close> without an operand prints \<open>%!s(MISSING)\<close> as in Go; a
  percent sign followed by anything else does not occur in the template and is copied.
\<close>

fun sprintf :: "string \<Rightarrow> string list \<Rightarrow> string" where
  "sprintf [] args = []"
| "sprintf [c] args = [c]"
| "sprintf (c # d # cs) args =
     (if c = CHR ''%'' \<and> d = CHR ''s'' then
        (case args of
           [] \<Rightarrow> ''%!s(MISSING)'' @ sprintf cs []
         | a # as \<Rightarrow> a @ sprintf cs as)
      else c # sprintf (d # cs) args)"

text \<open>The raw string literal of lines 93--106, line by line.\<close>

definition template :: string where
  "template =
     ''# CRI-O Dependency Report'' @ nl @
     nl @
     ''_Generated on %s for commit [%s][0]._'' @ nl @
     nl @
     ''[0]: https://github.com/cri-o/cri-o/commit/%s'' @ nl @
     nl @
     ''## Outdated Dependencies'' @ nl @
     nl @
     ''%s'' @ nl @
     nl @
     ''## All Dependencies'' @ nl @
     nl @
     ''%s'' @ nl"

text \<open>
  The slice expression \<open>head[:7]\<close> of line 108. Go panics when the string has fewer than
  seven bytes; \<open>None\<close> is that panic.
\<close>

definition short_hash :: "string \<Rightarrow> string option" where
  "short_hash h = (if length h < 7 then None else Some (take 7 h))"

text \<open>
  The operands of \<open>Sprintf\<close> are evaluated before the call, so the panic of the slice
  comes before any formatting.
\<close>

definition render :: "string \<Rightarrow> string \<Rightarrow> string \<Rightarrow> string \<Rightarrow> string option" where
  "render now h outdated all_deps =
     (case short_hash h of
        None \<Rightarrow> None
      | Some s \<Rightarrow> Some (sprintf template [now, s, h, outdated, all_deps]))"

subsection \<open>The world and the answers of the collaborators\<close>

datatype fmt_mode = Outdated | All

text \<open>One event per call that leaves the program, in the order of the calls.\<close>

datatype event =
    MkdirAllE string
  | SetenvE string string
  | GoListE
  | CreateTempE
  | WriteStringE string
  | FormatE fmt_mode string
  | RemoveAllE string
  | OpenRepoE
  | HeadE
  | WriteFileE string string
  | LookupEnvE string
  | ExitE nat
  | CurrentBranchE
  | CheckoutE string
  | AddE string
  | CommitE string
  | PushE string

record world =
  files :: "string \<rightharpoonup> string"
  environ :: "string \<rightharpoonup> string"
  cur_branch :: string
  staged :: "string list"
  commits :: "(string \<times> string) list"
  pushed :: "string list"
  trace :: "event list"

text \<open>
  What the outside answers to each fallible call of \<open>run\<close>: \<open>False\<close> or
  \<open>None\<close> is the call returning an error. The formatter is a function of its mode and
  of the text piped into it.
\<close>

record answers =
  mkdir_ok :: bool
  setenv_ok :: bool
  go_list :: "string option"
  create_temp :: "string option"
  tmp_write_ok :: bool
  formatter :: "fmt_mode \<Rightarrow> string \<Rightarrow> string option"
  open_repo_ok :: bool
  repo_head :: "string option"
  now :: string
  write_local_ok :: bool
  current_branch_ok :: bool
  checkout_ok :: bool
  write_repo_ok :: bool
  add_ok :: bool
  commit_ok :: bool
  push_ok :: bool
  restore_ok :: bool

text \<open>
  How \<open>run\<close> ends: it returns an error or \<open>nil\<close>, the process exits inside it
  (\<open>os.Exit\<close>), or it panics.
\<close>

datatype outcome = Returned "string option" | Exited nat | Panicked

definition log :: "event \<Rightarrow> world \<Rightarrow> world" where
  "log e w = w\<lparr>trace := trace w @ [e]\<rparr>"

subsection \<open>The calls\<close>

definition filepath_join :: "string \<Rightarrow> string \<Rightarrow> string" where
  "filepath_join d f = (if d = [] then f else d @ ''/'' @ f)"

definition os_Setenv :: "bool \<Rightarrow> string \<Rightarrow> string \<Rightarrow> world \<Rightarrow> world" where
  "os_Setenv ok k v w =
     (let w' = log (SetenvE k v) w
      in if ok then w'\<lparr>environ := (environ w')(k \<mapsto> v)\<rparr> else w')"

text \<open>\<open>os.CreateTemp\<close> creates the file, empty, under the name the system chose.\<close>

definition os_CreateTemp :: "string option \<Rightarrow> world \<Rightarrow> world" where
  "os_CreateTemp r w =
     (let w' = log CreateTempE w
      in case r of None \<Rightarrow> w' | Some t \<Rightarrow> w'\<lparr>files := (files w')(t \<mapsto> [])\<rparr>)"

definition file_WriteString :: "bool \<Rightarrow> string \<Rightarrow> string \<Rightarrow> world \<Rightarrow> world" where
  "file_WriteString ok t s w =
     (let w' = log (WriteStringE t) w
      in if ok then w'\<lparr>files := (files w')(t \<mapsto> s)\<rparr> else w')"

text \<open>
  \<open>cat <path> | go-mod-outdated ...\<close>: the text of the file is piped into the formatter;
  a missing file makes \<open>cat\<close>, and so the command, fail.
\<close>

definition run_formatter :: "answers \<Rightarrow> fmt_mode \<Rightarrow> string \<Rightarrow> world \<Rightarrow> string option" where
  "run_formatter a m t w =
     (case files w t of None \<Rightarrow> None | Some txt \<Rightarrow> formatter a m txt)"

text \<open>\<open>os.RemoveAll\<close> removes the path and everything beneath it, and does not fail
  when the path is absent; its result is ignored at line 81.\<close>

definition beneath :: "string \<Rightarrow> string \<Rightarrow> bool" where
  "beneath p q = (q = p \<or> take (Suc (length p)) q = p @ ''/'')"

definition os_RemoveAll :: "string \<Rightarrow> world \<Rightarrow> world" where
  "os_RemoveAll p w =
     (let w' = log (RemoveAllE p) w
      in w'\<lparr>files := (\<lambda>q. if beneath p q then None else files w' q)\<rparr>)"

definition os_WriteFile :: "bool \<Rightarrow> string \<Rightarrow> string \<Rightarrow> world \<Rightarrow> world" where
  "os_WriteFile ok p c w =
     (let w' = log (WriteFileE p c) w
      in if ok then w'\<lparr>files := (files w')(p \<mapsto> c)\<rparr> else w')"

definition git_Checkout :: "bool \<Rightarrow> string \<Rightarrow> world \<Rightarrow> world" where
  "git_Checkout ok b w =
     (let w' = log (CheckoutE b) w
      in if ok then w'\<lparr>cur_branch := b\<rparr> else w')"

definition git_Add :: "bool \<Rightarrow> string \<Rightarrow> world \<Rightarrow> world" where
  "git_Add ok f w =
     (let w' = log (AddE f) w
      in if ok then w'\<lparr>staged := staged w' @ [f]\<rparr> else w')"

definition git_Commit :: "bool \<Rightarrow> string \<Rightarrow> world \<Rightarrow> world" where
  "git_Commit ok msg w =
     (let w' = log (CommitE msg) w
      in if ok then w'\<lparr>commits := commits w' @ [(cur_branch w', msg)], staged := []\<rparr>
         else w')"

definition git_Push :: "bool \<Rightarrow> string \<Rightarrow> world \<Rightarrow> world" where
  "git_Push ok b w =
     (let w' = log (PushE b) w
      in if ok then w'\<lparr>pushed := pushed w' @ [b]\<rparr> else w')"

subsection \<open>The function \<open>run\<close> (lines 37--153)\<close>

text \<open>Lines 134--152: the steps between the checkout and the return.\<close>

definition publish_body :: "answers \<Rightarrow> string \<Rightarrow> world \<Rightarrow> string option \<times> world" where
  "publish_body a content w0 =
     (let w1 = os_WriteFile (write_repo_ok a) file_name content w0 in
      if \<not> write_repo_ok a then (Some ''write content to file'', w1) else
      let w2 = git_Add (add_ok a) file_name w1 in
      if \<not> add_ok a then (Some ''add file to repo'', w2) else
      let w3 = git_Commit (commit_ok a) ''Update dependency report'' w2 in
      if \<not> commit_ok a then (Some ''commit'', w3) else
      let w4 = git_Push (push_ok a) branch w3 in
      if \<not> push_ok a then (Some ''push changes'', w4) else
      (None, w4))"

text \<open>
  Lines 123--152. The function deferred at line 132 runs after the result of \<open>run\<close> has
  been fixed by the \<open>return\<close> statement; it assigns to the local variable \<open>err\<close>,
  which is not the result of \<open>run\<close> (the result is unnamed), so the returned value is the
  one of the body.
\<close>

definition publish :: "answers \<Rightarrow> string \<Rightarrow> world \<Rightarrow> outcome \<times> world" where
  "publish a content w0 =
     (let w1 = log CurrentBranchE w0 in
      if \<not> current_branch_ok a then (Returned (Some ''get current branch''), w1) else
      let currentBranch = cur_branch w1;
          w2 = git_Checkout (checkout_ok a) branch w1 in
      if \<not> checkout_ok a then (Returned (Some (''checkout '' @ branch @ '' branch'')), w2) else
      let r = publish_body a content w2;
          w3 = git_Checkout (restore_ok a) currentBranch (snd r)
      in (Returned (fst r), w3))"

text \<open>Lines 37--121, then the publisher. \<open>outputPath\<close> is the flag of line 26.\<close>

definition run :: "answers \<Rightarrow> string \<Rightarrow> world \<Rightarrow> outcome \<times> world" where
  "run a outputPath w0 =
     (let w1 = log (MkdirAllE outputPath) w0 in
      if \<not> mkdir_ok a then (Returned (Some ''create output path''), w1) else
      let w2 = os_Setenv (setenv_ok a) ''GOSUMDB'' ''off'' w1 in
      if \<not> setenv_ok a then (Returned (Some ''disabling GOSUMDB''), w2) else
      let w3 = log GoListE w2 in
      (case go_list a of
         None \<Rightarrow> (Returned (Some ''listing go modules''), w3)
       | Some modules \<Rightarrow>
      let w4 = os_CreateTemp (create_temp a) w3 in
      (case create_temp a of
         None \<Rightarrow> (Returned (Some ''creating temp file''), w4)
       | Some tmpFile \<Rightarrow>
      let w5 = file_WriteString (tmp_write_ok a) tmpFile modules w4 in
      if \<not> tmp_write_ok a then (Returned (Some ''writing to temp file''), w5) else
      let w6 = log (FormatE Outdated tmpFile) w5 in
      (case run_formatter a Outdated tmpFile w6 of
         None \<Rightarrow> (Returned (Some ''retrieving outdated dependencies''), w6)
       | Some outdated \<Rightarrow>
      let w7 = log (FormatE All tmpFile) w6 in
      (case run_formatter a All tmpFile w7 of
         None \<Rightarrow> (Returned (Some ''retrieving all dependencies''), w7)
       | Some all_deps \<Rightarrow>
      let outputFile = filepath_join outputPath file_name;
          w8 = os_RemoveAll outputFile w7;
          w9 = log OpenRepoE w8 in
      if \<not> open_repo_ok a then (Returned (Some ''open local repo''), w9) else
      let w10 = log HeadE w9 in
      (case repo_head a of
         None \<Rightarrow> (Returned (Some ''get repository HEAD''), w10)
       | Some head \<Rightarrow>
      (case render (now a) head outdated all_deps of
         None \<Rightarrow> (Panicked, w10)
       | Some content \<Rightarrow>
      let w11 = os_WriteFile (write_local_ok a) outputFile content w10 in
      if \<not> write_local_ok a then (Returned (Some ''writing report''), w11) else
      let w12 = log (LookupEnvE tokenKey) w11 in
      (case environ w12 tokenKey of
         None \<Rightarrow> (Exited 0, log (ExitE 0) w12)
       | Some token \<Rightarrow>
      if token = [] then (Exited 0, log (ExitE 0) w12)
      else publish a content w12))))))))"

text \<open>
  Lines 24--35: the exit status of the process. An error returned by \<open>run\<close> goes to
  \<open>logrus.Fatalf\<close> (status 1); a panic that nothing recovers ends a Go program with
  status 2.
\<close>

definition main_status :: "answers \<Rightarrow> string \<Rightarrow> world \<Rightarrow> nat" where
  "main_status a outputPath w =
     (case fst (run a outputPath w) of
        Returned None \<Rightarrow> 0
      | Returned (Some e) \<Rightarrow> 1
      | Exited n \<Rightarrow> n
      | Panicked \<Rightarrow> 2)"

subsection \<open>Observations on a run\<close>

text \<open>The calls made by one run: what \<open>run\<close> appended to the log.\<close>

definition calls :: "answers \<Rightarrow> string \<Rightarrow> world \<Rightarrow> event list" where
  "calls a outputPath w = drop (length (trace w)) (trace (snd (run a outputPath w)))"

text \<open>The calls that change the repository: checkout, stage, commit, push.\<close>

fun is_repo_mutation :: "event \<Rightarrow> bool" where
  "is_repo_mutation (CheckoutE b) = True"
| "is_repo_mutation (AddE f) = True"
| "is_repo_mutation (CommitE m) = True"
| "is_repo_mutation (PushE b) = True"
| "is_repo_mutation e = False"




subsection \<open>The report and the publisher as the specification words them\<close>

text \<open>
  The document of the specification: title, generation line with the timestamp and the
  short hash linked to the commit, the section of outdated dependencies with fragment A,
  the section of all dependencies with fragment B.
\<close>

definition generation_line :: "string \<Rightarrow> string \<Rightarrow> string" where
  "generation_line stamp short = ''_Generated on '' @ stamp @ '' for commit ['' @ short @ ''][0]._''"

definition commit_link :: "string \<Rightarrow> string" where
  "commit_link full = ''[0]: https://github.com/cri-o/cri-o/commit/'' @ full"

definition report_document :: "string \<Rightarrow> string \<Rightarrow> string \<Rightarrow> string \<Rightarrow> string \<Rightarrow> string" where
  "report_document stamp short full fragA fragB =
     ''# CRI-O Dependency Report'' @ nl @ nl @
     generation_line stamp short @ nl @ nl @
     commit_link full @ nl @ nl @
     ''## Outdated Dependencies'' @ nl @ nl @ fragA @ nl @ nl @
     ''## All Dependencies'' @ nl @ nl @ fragB @ nl"



subsection \<open>A concrete run\<close>

definition sample_world :: world where
  "sample_world =
     \<lparr>files = Map.empty, environ = [''GITHUB_TOKEN'' \<mapsto> ''secret''], cur_branch = ''main'',
      staged = [], commits = [], pushed = [], trace = []\<rparr>"

definition sample_answers :: answers where
  "sample_answers =
     \<lparr>mkdir_ok = True, setenv_ok = True, go_list = Some ''{}'',
      create_temp = Some ''/tmp/modules-1'', tmp_write_ok = True,
      formatter = (\<lambda>m txt. Some (case m of Outdated \<Rightarrow> ''A'' | All \<Rightarrow> ''B'')),
      open_repo_ok = True, repo_head = Some ''abc1234def'', now = ''T'',
      write_local_ok = True, current_branch_ok = True, checkout_ok = True,
      write_repo_ok = True, add_ok = True, commit_ok = True, push_ok = True,
      restore_ok = True\<rparr>"

section \<open>Properties\<close>

subsection \<open>Helper facts\<close>

text \<open>What each call does to each component of the world.\<close>

lemma log_proj [simp]:
  "trace (log e w) = trace w @ [e]" "files (log e w) = files w"
  "environ (log e w) = environ w" "cur_branch (log e w) = cur_branch w"
  "staged (log e w) = staged w" "commits (log e w) = commits w" "pushed (log e w) = pushed w"
  by (simp_all add: log_def)

lemma os_Setenv_proj [simp]:
  "trace (os_Setenv ok k v w) = trace w @ [SetenvE k v]"
  "files (os_Setenv ok k v w) = files w"
  "environ (os_Setenv ok k v w) = (if ok then (environ w)(k \<mapsto> v) else environ w)"
  "cur_branch (os_Setenv ok k v w) = cur_branch w"
  "staged (os_Setenv ok k v w) = staged w" "commits (os_Setenv ok k v w) = commits w"
  "pushed (os_Setenv ok k v w) = pushed w"
  by (simp_all add: os_Setenv_def Let_def)

lemma os_CreateTemp_proj [simp]:
  "trace (os_CreateTemp r w) = trace w @ [CreateTempE]"
  "files (os_CreateTemp r w) = (case r of None \<Rightarrow> files w | Some t \<Rightarrow> (files w)(t \<mapsto> []))"
  "environ (os_CreateTemp r w) = environ w"
  "cur_branch (os_CreateTemp r w) = cur_branch w"
  "staged (os_CreateTemp r w) = staged w" "commits (os_CreateTemp r w) = commits w"
  "pushed (os_CreateTemp r w) = pushed w"
  by (simp_all add: os_CreateTemp_def Let_def split: option.split)

lemma file_WriteString_proj [simp]:
  "trace (file_WriteString ok t s w) = trace w @ [WriteStringE t]"
  "files (file_WriteString ok t s w) = (if ok then (files w)(t \<mapsto> s) else files w)"
  "environ (file_WriteString ok t s w) = environ w"
  "cur_branch (file_WriteString ok t s w) = cur_branch w"
  "staged (file_WriteString ok t s w) = staged w" "commits (file_WriteString ok t s w) = commits w"
  "pushed (file_WriteString ok t s w) = pushed w"
  by (simp_all add: file_WriteString_def Let_def)

lemma os_RemoveAll_proj [simp]:
  "trace (os_RemoveAll p w) = trace w @ [RemoveAllE p]"
  "files (os_RemoveAll p w) = (\<lambda>q. if beneath p q then None else files w q)"
  "environ (os_RemoveAll p w) = environ w"
  "cur_branch (os_RemoveAll p w) = cur_branch w"
  "staged (os_RemoveAll p w) = staged w" "commits (os_RemoveAll p w) = commits w"
  "pushed (os_RemoveAll p w) = pushed w"
  by (simp_all add: os_RemoveAll_def Let_def log_def fun_eq_iff)

lemma os_WriteFile_proj [simp]:
  "trace (os_WriteFile ok p c w) = trace w @ [WriteFileE p c]"
  "files (os_WriteFile ok p c w) = (if ok then (files w)(p \<mapsto> c) else files w)"
  "environ (os_WriteFile ok p c w) = environ w"
  "cur_branch (os_WriteFile ok p c w) = cur_branch w"
  "staged (os_WriteFile ok p c w) = staged w" "commits (os_WriteFile ok p c w) = commits w"
  "pushed (os_WriteFile ok p c w) = pushed w"
  by (simp_all add: os_WriteFile_def Let_def)

lemma git_Checkout_proj [simp]:
  "trace (git_Checkout ok b w) = trace w @ [CheckoutE b]"
  "files (git_Checkout ok b w) = files w"
  "environ (git_Checkout ok b w) = environ w"
  "cur_branch (git_Checkout ok b w) = (if ok then b else cur_branch w)"
  "staged (git_Checkout ok b w) = staged w" "commits (git_Checkout ok b w) = commits w"
  "pushed (git_Checkout ok b w) = pushed w"
  by (simp_all add: git_Checkout_def Let_def)

lemma git_Add_proj [simp]:
  "trace (git_Add ok f w) = trace w @ [AddE f]"
  "files (git_Add ok f w) = files w"
  "environ (git_Add ok f w) = environ w"
  "cur_branch (git_Add ok f w) = cur_branch w"
  "staged (git_Add ok f w) = (if ok then staged w @ [f] else staged w)"
  "commits (git_Add ok f w) = commits w"
  "pushed (git_Add ok f w) = pushed w"
  by (simp_all add: git_Add_def Let_def)

lemma git_Commit_proj [simp]:
  "trace (git_Commit ok m w) = trace w @ [CommitE m]"
  "files (git_Commit ok m w) = files w"
  "environ (git_Commit ok m w) = environ w"
  "cur_branch (git_Commit ok m w) = cur_branch w"
  "staged (git_Commit ok m w) = (if ok then [] else staged w)"
  "commits (git_Commit ok m w) = (if ok then commits w @ [(cur_branch w, m)] else commits w)"
  "pushed (git_Commit ok m w) = pushed w"
  by (simp_all add: git_Commit_def Let_def)

lemma git_Push_proj [simp]:
  "trace (git_Push ok b w) = trace w @ [PushE b]"
  "files (git_Push ok b w) = files w"
  "environ (git_Push ok b w) = environ w"
  "cur_branch (git_Push ok b w) = cur_branch w"
  "staged (git_Push ok b w) = staged w" "commits (git_Push ok b w) = commits w"
  "pushed (git_Push ok b w) = (if ok then pushed w @ [b] else pushed w)"
  by (simp_all add: git_Push_def Let_def)

lemmas run_unf = calls_def run_def publish_def publish_body_def Let_def run_formatter_def

lemmas sample_defs = sample_answers_def sample_world_def filepath_join_def file_name_def
  tokenKey_def branch_def beneath_def

lemma tokenKey_neq_GOSUMDB [simp]: "tokenKey \<noteq> ''GOSUMDB''" "''GOSUMDB'' \<noteq> tokenKey"
  by (simp_all add: tokenKey_def)

text \<open>
  The paths through \<open>run\<close> up to the credential check, by the first answer that makes
  it leave: one case per \<open>return\<close> statement of lines 42--115, one for the panic of
  the slice, and one for reaching line 117.
\<close>

lemma path_cases [case_names mkdir setenv golist mktemp wrtemp fmtA fmtB openrepo gethead panic wrlocal reach]:
  obtains
    "\<not> mkdir_ok a"
  | "mkdir_ok a" "\<not> setenv_ok a"
  | "mkdir_ok a" "setenv_ok a" "go_list a = None"
  | m where "mkdir_ok a" "setenv_ok a" "go_list a = Some m" "create_temp a = None"
  | m t where "mkdir_ok a" "setenv_ok a" "go_list a = Some m" "create_temp a = Some t"
      "\<not> tmp_write_ok a"
  | m t where "mkdir_ok a" "setenv_ok a" "go_list a = Some m" "create_temp a = Some t"
      "tmp_write_ok a" "formatter a Outdated m = None"
  | m t x where "mkdir_ok a" "setenv_ok a" "go_list a = Some m" "create_temp a = Some t"
      "tmp_write_ok a" "formatter a Outdated m = Some x" "formatter a All m = None"
  | m t x y where "mkdir_ok a" "setenv_ok a" "go_list a = Some m" "create_temp a = Some t"
      "tmp_write_ok a" "formatter a Outdated m = Some x" "formatter a All m = Some y"
      "\<not> open_repo_ok a"
  | m t x y where "mkdir_ok a" "setenv_ok a" "go_list a = Some m" "create_temp a = Some t"
      "tmp_write_ok a" "formatter a Outdated m = Some x" "formatter a All m = Some y"
      "open_repo_ok a" "repo_head a = None"
  | m t x y h where "mkdir_ok a" "setenv_ok a" "go_list a = Some m" "create_temp a = Some t"
      "tmp_write_ok a" "formatter a Outdated m = Some x" "formatter a All m = Some y"
      "open_repo_ok a" "repo_head a = Some h" "length h < 7"
  | m t x y h where "mkdir_ok a" "setenv_ok a" "go_list a = Some m" "create_temp a = Some t"
      "tmp_write_ok a" "formatter a Outdated m = Some x" "formatter a All m = Some y"
      "open_repo_ok a" "repo_head a = Some h" "7 \<le> length h" "\<not> write_local_ok a"
  | m t x y h where "mkdir_ok a" "setenv_ok a" "go_list a = Some m" "create_temp a = Some t"
      "tmp_write_ok a" "formatter a Outdated m = Some x" "formatter a All m = Some y"
      "open_repo_ok a" "repo_head a = Some h" "7 \<le> length h" "write_local_ok a"
proof (cases "go_list a")
  case None
  then show ?thesis using that(1,2,3) by blast
next
  case m: (Some m)
  show ?thesis
  proof (cases "create_temp a")
    case None
    then show ?thesis using m that(1,2,4) by blast
  next
    case t: (Some t)
    show ?thesis
    proof (cases "formatter a Outdated m")
      case None
      then show ?thesis using m t that(1,2,5,6) by blast
    next
      case x: (Some x)
      show ?thesis
      proof (cases "formatter a All m")
        case None
        then show ?thesis using m t x that(1,2,5,7) by blast
      next
        case y: (Some y)
        show ?thesis
        proof (cases "repo_head a")
          case None
          then show ?thesis using m t x y that(1,2,5,8,9) by blast
        next
          case h: (Some h)
          show ?thesis
          proof (cases "length h < 7")
            case True
            then show ?thesis using m t x y h that(1,2,5,8,10) by blast
          next
            case False
            then have "7 \<le> length h" by simp
            then show ?thesis using m t x y h that(1,2,5,8,11,12) by blast
          qed
        qed
      qed
    qed
  qed
qed


lemma sprintf_template:
  "sprintf template [a, b, c, d, e] = report_document a b c d e"
  by (simp add: template_def report_document_def generation_line_def commit_link_def nl_def)

lemma render_Some:
  "7 \<le> length h \<Longrightarrow> render n h x y = Some (report_document n (take 7 h) h x y)"
  by (simp add: render_def short_hash_def sprintf_template)

lemma render_None: "length h < 7 \<Longrightarrow> render n h x y = None"
  by (simp add: render_def short_hash_def)

text \<open>The calls of a run in which everything succeeds and the credential is present.\<close>

lemma sample_calls:
  "calls sample_answers ''out'' sample_world =
    [MkdirAllE ''out'', SetenvE ''GOSUMDB'' ''off'', GoListE, CreateTempE,
     WriteStringE ''/tmp/modules-1'', FormatE Outdated ''/tmp/modules-1'',
     FormatE All ''/tmp/modules-1'', RemoveAllE ''out/dependencies.md'', OpenRepoE, HeadE,
     WriteFileE ''out/dependencies.md''
       (report_document ''T'' ''abc1234'' ''abc1234def'' ''A'' ''B''),
     LookupEnvE ''GITHUB_TOKEN'', CurrentBranchE, CheckoutE ''gh-pages'',
     WriteFileE ''dependencies.md''
       (report_document ''T'' ''abc1234'' ''abc1234def'' ''A'' ''B''),
     AddE ''dependencies.md'', CommitE ''Update dependency report'',
     PushE ''gh-pages'', CheckoutE ''main'']"
  by (simp add: run_unf sample_defs render_Some)

subsection \<open>The rendered report\<close>

text \<open>
  Claim C6. For a HEAD hash of at least seven characters, as every full commit hash is, the
  rendered report holds the generation line built with exactly the first seven characters
  of the hash, followed by the link line that cites the full hash.
\<close>

theorem short_hash_in_report:
  assumes "7 \<le> length h"
  shows "\<exists>pre post. render n h x y =
           Some (pre @ generation_line n (take 7 h) @ nl @ nl @ commit_link h @ post)
         \<and> length (take 7 h) = 7 \<and> take 7 h @ drop 7 h = h"
proof -
  have "render n h x y = Some ((''# CRI-O Dependency Report'' @ nl @ nl) @
      generation_line n (take 7 h) @ nl @ nl @ commit_link h @
      (nl @ nl @ ''## Outdated Dependencies'' @ nl @ nl @ x @ nl @ nl @
       ''## All Dependencies'' @ nl @ nl @ y @ nl))"
    using assms by (simp add: render_Some report_document_def)
  moreover have "length (take 7 h) = 7" using assms by simp
  moreover have "take 7 h @ drop 7 h = h" by simp
  ultimately show ?thesis by blast
qed

theorem short_hash_in_report_witness:
  "7 \<le> length ''abc1234def'' \<and>
   (\<exists>pre post. render ''T'' ''abc1234def'' ''A'' ''B'' =
      Some (pre @ generation_line ''T'' ''abc1234'' @ nl @ nl @ commit_link ''abc1234def'' @ post))"
  using short_hash_in_report [of "''abc1234def''" "''T''" "''A''" "''B''"] by simp

text \<open>
  Claim C9. Rendering fails, with the panic of the slice \<open>head[:7]\<close>, exactly when the
  HEAD hash has fewer than seven characters; with seven or more it always yields a report.
\<close>

theorem render_total_iff:
  "(short_hash h = None) = (length h < 7) \<and> (render n h x y = None) = (length h < 7)"
  by (simp add: render_def short_hash_def)



subsection \<open>The order of the steps\<close>







subsection \<open>The credential check\<close>

text \<open>
  Claim C3 does not hold as stated: with the credential unset and a local write that fails,
  \<open>run\<close> returns the error of the write before it looks at the credential, and the
  process ends with status 1.
\<close>

theorem no_token_failed_write_exits_nonzero:
  "environ (sample_world\<lparr>environ := Map.empty\<rparr>) tokenKey = None \<and>
   main_status (sample_answers\<lparr>write_local_ok := False\<rparr>) ''out''
     (sample_world\<lparr>environ := Map.empty\<rparr>) = 1"
  by (simp add: run_unf main_status_def sample_defs render_Some)

text \<open>
  Claim C3, amended. When \<open>GITHUB_TOKEN\<close> is unset or empty, no run changes the
  repository, whatever the outcome of the local write: no checkout, stage, commit or push is
  called, and the current branch, the index, the commits and the pushed branches are as
  before. When such a run reaches the credential check, the process exits there with status
  zero.
\<close>

theorem no_token_no_repository_mutation:
  assumes "environ w tokenKey = None \<or> environ w tokenKey = Some []"
  shows "cur_branch (snd (run a p w)) = cur_branch w \<and>
         staged (snd (run a p w)) = staged w \<and>
         commits (snd (run a p w)) = commits w \<and>
         pushed (snd (run a p w)) = pushed w \<and>
         (\<forall>e \<in> set (calls a p w). \<not> is_repo_mutation e) \<and>
         (LookupEnvE tokenKey \<in> set (calls a p w) \<longrightarrow>
            fst (run a p w) = Exited 0 \<and> main_status a p w = 0)"
  using assms by (cases a rule: path_cases)
     (auto simp add: run_unf main_status_def render_Some render_None)

theorem no_token_no_repository_mutation_witness:
  "environ (sample_world\<lparr>environ := [''GITHUB_TOKEN'' \<mapsto> []]\<rparr>) tokenKey = Some [] \<and>
   LookupEnvE tokenKey \<in> set (calls sample_answers ''out''
      (sample_world\<lparr>environ := [''GITHUB_TOKEN'' \<mapsto> []]\<rparr>)) \<and>
   main_status sample_answers ''out'' (sample_world\<lparr>environ := [''GITHUB_TOKEN'' \<mapsto> []]\<rparr>) = 0 \<and>
   cur_branch (snd (run sample_answers ''out''
      (sample_world\<lparr>environ := [''GITHUB_TOKEN'' \<mapsto> []]\<rparr>))) = ''main''"
  using no_token_no_repository_mutation
    [of "sample_world\<lparr>environ := [''GITHUB_TOKEN'' \<mapsto> []]\<rparr>" sample_answers "''out''"]
  by (simp add: run_unf sample_defs render_Some)

subsection \<open>Restoring the branch\<close>






subsection \<open>The temporary file\<close>




end
